theory Spec2Isabelle
  imports Complex_Main "HOL-Library.Word"
begin

section \<open>Numbers, vectors and arrays\<close>

text \<open>
  The program computes on numpy arrays of float64. Floating-point numbers are idealised
  as exact reals (no rounding error, no NaN, no infinity, no overflow of int64); a
  two-element array (Y, X) is a pair; a two-dimensional array is the list of its rows.
  Canvas pixels are unsigned machine integers of some width \<open>'a\<close>.
\<close>

type_synonym vec2 = "real \<times> real"
type_synonym ivec2 = "int \<times> int"
type_synonym 'a array2 = "'a list list"
type_synonym image = "real array2"

datatype error = ValueError string | IndexError

definition vadd :: "vec2 \<Rightarrow> vec2 \<Rightarrow> vec2" where
  "vadd a b = (fst a + fst b, snd a + snd b)"

definition vsub :: "vec2 \<Rightarrow> vec2 \<Rightarrow> vec2" where
  "vsub a b = (fst a - fst b, snd a - snd b)"

definition vneg :: "vec2 \<Rightarrow> vec2" where
  "vneg a = (- fst a, - snd a)"

definition vmax :: "vec2 \<Rightarrow> vec2 \<Rightarrow> vec2" where
  "vmax a b = (max (fst a) (fst b), max (snd a) (snd b))"

definition vmin :: "vec2 \<Rightarrow> vec2 \<Rightarrow> vec2" where
  "vmin a b = (min (fst a) (fst b), min (snd a) (snd b))"

definition of_ivec :: "ivec2 \<Rightarrow> vec2" where
  "of_ivec a = (real_of_int (fst a), real_of_int (snd a))"

text \<open>\<open>astype(int)\<close> on a float, and the integral part of \<open>np.modf\<close>: truncation
  toward zero.\<close>

definition trunc :: "real \<Rightarrow> int" where
  "trunc x = (if x < 0 then \<lceil>x\<rceil> else \<lfloor>x\<rfloor>)"


text \<open>\<open>np.modf\<close>: the fractional and the integral part, both with the sign of the
  argument.\<close>

definition modf :: "real \<Rightarrow> real \<times> real" where
  "modf x = (x - real_of_int (trunc x), real_of_int (trunc x))"

text \<open>Indexing an array with one integer: a negative index counts from the end, an index
  out of range raises IndexError.\<close>

definition np_index :: "'a list \<Rightarrow> int \<Rightarrow> 'a option" where
  "np_index xs i =
     (let n = int (length xs); j = (if i < 0 then n + i else i)
      in if 0 \<le> j \<and> j < n then Some (xs ! nat j) else None)"

text \<open>Slicing \<open>a[i:j]\<close>: each bound is normalised into \<open>0..len\<close> (a negative bound counts
  from the end), and an empty range gives an empty slice.\<close>

definition slice_index :: "nat \<Rightarrow> int \<Rightarrow> nat" where
  "slice_index n k = (if k < 0 then nat (max 0 (int n + k)) else min n (nat k))"


definition slice_from :: "int \<Rightarrow> 'a list \<Rightarrow> 'a list" where
  "slice_from i xs = drop (slice_index (length xs) i) xs"

definition slice_to :: "int \<Rightarrow> 'a list \<Rightarrow> 'a list" where
  "slice_to j xs = take (slice_index (length xs) j) xs"

text \<open>\<open>a.shape[0]\<close> and \<open>a.shape[1]\<close>. An array with no row is \<open>[]\<close>, whatever its
  second dimension.\<close>

definition nrows :: "'a array2 \<Rightarrow> nat" where
  "nrows a = length a"

definition ncols :: "'a array2 \<Rightarrow> nat" where
  "ncols a = (case a of [] \<Rightarrow> 0 | r # _ \<Rightarrow> length r)"

definition rect :: "'a array2 \<Rightarrow> bool" where
  "rect a = list_all (\<lambda>r. length r = ncols a) a"

section \<open>Metadata\<close>

text \<open>
  What the OME-XML of the file holds, per image of the series: the pixel dimensions and
  the stage position of plane 0 in microns. \<open>PhysicalSizeY\<close> and \<open>PhysicalSizeX\<close> are
  the attributes of image 0 that \<open>pixel_size\<close> reads.
\<close>

record pixels =
  SizeY :: int
  SizeX :: int
  PositionY :: real
  PositionX :: real

record omexml =
  PhysicalSizeY :: real
  PhysicalSizeX :: real
  images :: "pixels list"

record Metadata =
  metadata :: omexml
  size_yx :: ivec2

definition num_images :: "Metadata \<Rightarrow> nat" where
  "num_images md = length (images (metadata md))"

definition pixel_size :: "Metadata \<Rightarrow> vec2" where
  "pixel_size md = (PhysicalSizeY (metadata md), PhysicalSizeX (metadata md))"

definition tile_position :: "Metadata \<Rightarrow> nat \<Rightarrow> vec2" where
  "tile_position md i =
     (let plane = images (metadata md) ! i;
          position_microns = (PositionY plane, PositionX plane)
      in (fst position_microns / fst (pixel_size md),
          snd position_microns / snd (pixel_size md)))"

definition tile_size :: "omexml \<Rightarrow> nat \<Rightarrow> ivec2" where
  "tile_size ome i = (SizeY (images ome ! i), SizeX (images ome ! i))"

text \<open>The constructor: every image of the series has the dimensions of image 0.\<close>

definition Metadata_init :: "omexml \<Rightarrow> error + Metadata" where
  "Metadata_init ome =
     (if images ome = [] then Inl IndexError
      else let s0 = tile_size ome 0
        in if list_ex (\<lambda>i. tile_size ome i \<noteq> s0) [1..<length (images ome)]
           then Inl (ValueError ''Image series must all have the same dimensions'')
           else Inr \<lparr>metadata = ome, size_yx = s0\<rparr>)"

text \<open>\<open>np.vstack\<close> of the tile positions, in tile order; it raises ValueError on an
  empty list.\<close>

definition positions :: "Metadata \<Rightarrow> error + vec2 list" where
  "positions md =
     (if num_images md = 0 then Inl (ValueError ''need at least one array to concatenate'')
      else Inr (map (tile_position md) [0..<num_images md]))"

definition grid_dimensions :: "Metadata \<Rightarrow> error + (nat \<times> nat)" where
  "grid_dimensions md =
     (case positions md of
        Inl e \<Rightarrow> Inl e
      | Inr pos \<Rightarrow>
          let shape = (length (remdups (map fst pos)), length (remdups (map snd pos)))
          in if fst shape * snd shape \<noteq> num_images md
             then Inl (ValueError ''Series positions do not form a grid'')
             else Inr shape)"


section \<open>EdgeAligner: the overlap of two tiles\<close>

definition intersection :: "Metadata \<Rightarrow> int \<Rightarrow> int \<Rightarrow> error + (vec2 \<times> vec2 \<times> ivec2)" where
  "intersection md t1 t2 =
     (case positions md of
        Inl e \<Rightarrow> Inl e
      | Inr pos \<Rightarrow>
          (case (np_index pos t1, np_index pos t2) of
             (Some p1, Some p2) \<Rightarrow>
               let corners2 = (vadd p1 (of_ivec (size_yx md)), vadd p2 (of_ivec (size_yx md)));
                   position = vmax p1 p2;
                   d = vsub (vmin (fst corners2) (snd corners2)) position;
                   shape = (\<lceil>fst d\<rceil>, \<lceil>snd d\<rceil>)
               in if fst shape \<le> 0 \<or> snd shape \<le> 0
                  then Inl (ValueError ''Tiles do not intersect'')
                  else Inr (vsub p1 position, vsub p2 position, shape)
           | _ \<Rightarrow> Inl IndexError))"

section \<open>External collaborators\<close>

text \<open>
  The library functions the program calls are parameters of the model: the plane reader
  of Bio-Formats (\<open>ir.read(c, series)\<close>), \<open>scipy.ndimage.shift\<close> (interpolated
  resampling), \<open>skimage.filters.laplace\<close> and \<open>skimage.feature.register_translation\<close>,
  which returns the shift, the error and a phase difference the program ignores.
\<close>

record externals =
  ir_read :: "int \<Rightarrow> int \<Rightarrow> image"
  ndimage_shift :: "image \<Rightarrow> vec2 \<Rightarrow> image"
  laplace :: "image \<Rightarrow> image"
  register_translation :: "image \<Rightarrow> image \<Rightarrow> nat \<Rightarrow> vec2 \<times> real"

text \<open>\<open>np.clip(x, lo, hi)\<close> on one element.\<close>

definition clip :: "'b::linorder \<Rightarrow> 'b \<Rightarrow> 'b \<Rightarrow> 'b" where
  "clip lo hi x = min hi (max lo x)"

section \<open>Reader\<close>

text \<open>A reader holds the metadata of its file; \<open>reads\<close> logs the planes it has read,
  as (series, channel), in the order of the calls.\<close>

record Reader =
  rmetadata :: Metadata
  reads :: "(int \<times> int) list"

definition Reader_read :: "externals \<Rightarrow> Reader \<Rightarrow> int \<Rightarrow> int \<Rightarrow> image \<times> Reader" where
  "Reader_read ext rd series c =
     (rev (ir_read ext c series), rd\<lparr>reads := reads rd @ [(series, c)]\<rparr>)"

definition whiten :: "externals \<Rightarrow> image \<Rightarrow> image" where
  "whiten ext img = laplace ext img"

definition crop_like :: "'b array2 \<Rightarrow> 'c array2 \<Rightarrow> 'b array2" where
  "crop_like img target =
     (let img1 = (if nrows img > nrows target then slice_to (int (nrows target)) img else img)
      in if ncols img1 > ncols target then map (slice_to (int (ncols target))) img1 else img1)"

section \<open>EdgeAligner\<close>

record EdgeAligner =
  reader :: Reader
  max_shift :: real
  cache :: "(int \<times> int) \<rightharpoonup> (vec2 \<times> real)"

definition EdgeAligner_init :: "Reader \<Rightarrow> EdgeAligner" where
  "EdgeAligner_init rd = \<lparr>reader = rd, max_shift = 5 / 100, cache = Map.empty\<rparr>"

definition crop :: "externals \<Rightarrow> Reader \<Rightarrow> int \<Rightarrow> vec2 \<Rightarrow> ivec2 \<Rightarrow> image \<times> Reader" where
  "crop ext rd tile offset shape =
     (let (img, rd1) = Reader_read ext rd tile 0;
          img1 = map (slice_to (snd shape)) (slice_to (fst shape) (ndimage_shift ext img offset));
          img2 = map (map (clip 0 1)) img1
      in (img2, rd1))"

definition overlap ::
  "externals \<Rightarrow> EdgeAligner \<Rightarrow> int \<Rightarrow> int \<Rightarrow> (error + (image \<times> image)) \<times> EdgeAligner" where
  "overlap ext al t1 t2 =
     (case intersection (rmetadata (reader al)) t1 t2 of
        Inl e \<Rightarrow> (Inl e, al)
      | Inr (offset1, offset2, shape) \<Rightarrow>
          let (img1, rd1) = crop ext (reader al) t1 offset1 shape;
              (img2, rd2) = crop ext rd1 t2 offset2 shape
          in (Inr (img1, img2), al\<lparr>reader := rd2\<rparr>))"

text \<open>The estimate \<open>register\<close> computes on a cache miss, before the outlier test.\<close>

definition estimate :: "externals \<Rightarrow> image \<Rightarrow> image \<Rightarrow> vec2 \<times> real" where
  "estimate ext img1 img2 = register_translation ext (whiten ext img1) (whiten ext img2) 10"

text \<open>\<open>any(np.abs(shift) > self.max_shift * self.reader.metadata.size)\<close>\<close>

definition exceeds :: "EdgeAligner \<Rightarrow> vec2 \<Rightarrow> bool" where
  "exceeds al shift =
     (\<bar>fst shift\<bar> > max_shift al * real_of_int (fst (size_yx (rmetadata (reader al)))) \<or>
      \<bar>snd shift\<bar> > max_shift al * real_of_int (snd (size_yx (rmetadata (reader al)))))"

definition register ::
  "externals \<Rightarrow> EdgeAligner \<Rightarrow> int \<Rightarrow> int \<Rightarrow> (error + (vec2 \<times> real)) \<times> EdgeAligner" where
  "register ext al t1 t2 =
     (let key = (min t1 t2, max t1 t2)
      in case (case cache al key of
                 Some (shift, err) \<Rightarrow> (Inr (shift, err), al)
               | None \<Rightarrow>
                   (case overlap ext al t1 t2 of
                      (Inl e, al1) \<Rightarrow> (Inl e, al1)
                    | (Inr (img1, img2), al1) \<Rightarrow>
                        let (shift, err) = estimate ext img1 img2;
                            (shift1, err1) =
                              (if exceeds al1 shift then ((0, 0), 1) else (shift, err))
                        in (Inr (shift1, err1),
                            al1\<lparr>cache := (cache al1)(key \<mapsto> (shift1, err1))\<rparr>)))
         of
           (Inl e, al2) \<Rightarrow> (Inl e, al2)
         | (Inr (shift, err), al2) \<Rightarrow>
             (Inr (if t1 > t2 then vneg shift else shift, err), al2))"

section \<open>LayerAligner\<close>




section \<open>Compositing\<close>

text \<open>
  A basic slice of an array is a view: it shares the array's memory, and an assignment to
  the view writes into the array. A view is modelled by the rows and columns of the array
  it covers; \<open>view_of a i1 i2 j1 j2\<close> is \<open>a[i1:i2, j1:j2]\<close>.
\<close>

record view =
  row_start :: nat
  row_stop :: nat
  col_start :: nat
  col_stop :: nat

definition view_of :: "'b array2 \<Rightarrow> int \<Rightarrow> int \<Rightarrow> int \<Rightarrow> int \<Rightarrow> view" where
  "view_of a i1 i2 j1 j2 =
     (let ra = slice_index (nrows a) i1; rb = slice_index (nrows a) i2;
          ca = slice_index (ncols a) j1; cb = slice_index (ncols a) j2
      in \<lparr>row_start = ra, row_stop = max ra rb, col_start = ca, col_stop = max ca cb\<rparr>)"

definition view_rows :: "view \<Rightarrow> nat" where
  "view_rows v = row_stop v - row_start v"

definition view_cols :: "view \<Rightarrow> nat" where
  "view_cols v = col_stop v - col_start v"

definition in_view :: "view \<Rightarrow> nat \<Rightarrow> nat \<Rightarrow> bool" where
  "in_view v r c = (row_start v \<le> r \<and> r < row_stop v \<and> col_start v \<le> c \<and> c < col_stop v)"

text \<open>The contents of a view, as an array of its own.\<close>

definition view_get :: "'b array2 \<Rightarrow> view \<Rightarrow> 'b array2" where
  "view_get a v =
     map (\<lambda>row. take (view_cols v) (drop (col_start v) row)) (take (view_rows v) (drop (row_start v) a))"

text \<open>An update of the elements of the array at the places \<open>P\<close>, the others kept.\<close>

definition map_region :: "(nat \<Rightarrow> nat \<Rightarrow> bool) \<Rightarrow> (nat \<Rightarrow> nat \<Rightarrow> 'b \<Rightarrow> 'b) \<Rightarrow> 'b array2 \<Rightarrow> 'b array2" where
  "map_region P f a =
     map (\<lambda>(r, row). map (\<lambda>(c, x). if P r c then f r c x else x) (enumerate 0 row)) (enumerate 0 a)"

text \<open>\<open>view[:, :] = new\<close>, for \<open>new\<close> of the shape of the view.\<close>

definition view_set :: "'b array2 \<Rightarrow> view \<Rightarrow> 'b array2 \<Rightarrow> 'b array2" where
  "view_set a v new =
     map_region (in_view v) (\<lambda>r c x. new ! (r - row_start v) ! (c - col_start v)) a"

text \<open>\<open>view += k\<close> on unsigned integers of a fixed width: the sum wraps around.\<close>

definition view_add :: "'a::len word array2 \<Rightarrow> view \<Rightarrow> 'a word \<Rightarrow> 'a word array2" where
  "view_add a v k = map_region (in_view v) (\<lambda>r c x. x + k) a"

text \<open>Lines 216 to 224 of \<open>paste\<close>: the position is split into its fractional and its
  integral part, and the image is clipped where the integral part is negative.\<close>

definition paste_clip :: "image \<Rightarrow> vec2 \<Rightarrow> image \<times> vec2 \<times> int \<times> int" where
  "paste_clip img pos =
     (let (fy, iy) = modf (fst pos); (fx, ix) = modf (snd pos);
          pos_f = (fy, fx);
          yi = trunc iy; xi = trunc ix;
          (img1, yi1) = (if yi < 0 then (slice_from (- yi) img, 0) else (img, yi));
          (img2, xi1) = (if xi < 0 then (map (slice_from (- xi)) img1, 0) else (img1, xi))
      in (img2, pos_f, yi1, xi1))"

text \<open>Lines 241 to 245: the outline of the debug mode. An integer index into an empty
  axis raises IndexError; the result of the last \<open>np.clip\<close>, which is given no output
  array, is dropped.\<close>

definition paste_outline ::
  "'a::len word array2 \<Rightarrow> view \<Rightarrow> (error + unit) \<times> 'a word array2" where
  "paste_outline target v =
     (if view_rows v = 0 then (Inl IndexError, target)
      else
        let t1 = view_add target (v\<lparr>row_stop := row_start v + 1\<rparr>) 6000;
            t2 = view_add t1 (v\<lparr>row_start := row_stop v - 1\<rparr>) 6000
        in if view_cols v = 0 then (Inl IndexError, t2)
           else
             let ra = row_start v + slice_index (view_rows v) 1;
                 rb = row_start v + slice_index (view_rows v) (- 1);
                 inner = v\<lparr>row_start := ra, row_stop := max ra rb\<rparr>;
                 t3 = view_add t2 (inner\<lparr>col_stop := col_start v + 1\<rparr>) 6000;
                 t4 = view_add t3 (inner\<lparr>col_start := col_stop v - 1\<rparr>) 6000;
                 clipped = map (map (clip 0 (- 1))) (view_get t4 v)
             in (Inr (), t4))"

text \<open>Lines 229 to 245. \<open>convert\<close> is what \<open>skimage.util.dtype.convert\<close> does to one
  element in [0, 1] for the canvas's pixel type. \<open>np.maximum\<close> and the assignment need
  operands of one shape; the model raises ValueError for any other.\<close>

definition paste_at ::
  "externals \<Rightarrow> (real \<Rightarrow> 'a::len word) \<Rightarrow> 'a word array2 \<Rightarrow> image \<Rightarrow> vec2 \<Rightarrow> int \<Rightarrow> int \<Rightarrow> bool
     \<Rightarrow> (error + unit) \<times> 'a word array2" where
  "paste_at ext convert target img pos_f yi xi debug =
     (let target_slice = view_of target yi (yi + int (nrows img)) xi (xi + int (ncols img));
          img1 = crop_like img (view_get target target_slice);
          img2 = ndimage_shift ext img1 pos_f;
          img3 = map (map (clip 0 1)) img2;
          img4 = map (map convert) img3
      in if map length img4 \<noteq> map length (view_get target target_slice)
         then (Inl (ValueError ''operands could not be broadcast together''), target)
         else
           let target1 = view_set target target_slice
                 (map2 (map2 max) (view_get target target_slice) img4)
           in if debug then paste_outline target1 target_slice else (Inr (), target1))"

definition paste ::
  "externals \<Rightarrow> (real \<Rightarrow> 'a::len word) \<Rightarrow> 'a word array2 \<Rightarrow> image \<Rightarrow> vec2 \<Rightarrow> bool
     \<Rightarrow> (error + unit) \<times> 'a word array2" where
  "paste ext convert target img pos debug =
     (let (img1, pos_f, yi, xi) = paste_clip img pos
      in paste_at ext convert target img1 pos_f yi xi debug)"

section \<open>A concrete series\<close>

text \<open>Six tiles of 100 by 100 pixels in two rows of three, 90 pixels apart, with a pixel
  of half a micron.\<close>

definition example_ome :: omexml where
  "example_ome = \<lparr>PhysicalSizeY = 1 / 2, PhysicalSizeX = 1 / 2,
     images = map (\<lambda>(y, x). \<lparr>SizeY = 100, SizeX = 100, PositionY = y, PositionX = x\<rparr>)
       [(0, 0), (0, 45), (0, 90), (45, 0), (45, 45), (45, 90)]\<rparr>"

definition example_md :: Metadata where
  "example_md = \<lparr>metadata = example_ome, size_yx = (100, 100)\<rparr>"

text \<open>A reader of the example series whose tile \<open>s\<close> is the single pixel \<open>s / 10\<close>, with
  stand-ins for the library functions: no resampling, no filtering, and an estimate that
  depends on the difference of the two pixels.\<close>

definition example_ext :: externals where
  "example_ext = \<lparr>
     ir_read = (\<lambda>c series. [[real_of_int series / 10]]),
     ndimage_shift = (\<lambda>img v. img),
     laplace = (\<lambda>img. img),
     register_translation = (\<lambda>a b u.
       let d = (hd (hd b) - hd (hd a)) * 10
       in if \<bar>d\<bar> = 1 then ((d, 2 * d), 1 / 4) else ((7 * d, 0), 1 / 8))\<rparr>"

definition example_reader :: Reader where
  "example_reader = \<lparr>rmetadata = example_md, reads = []\<rparr>"

definition example_aligner :: EdgeAligner where
  "example_aligner = EdgeAligner_init example_reader"

text \<open>The aligner after \<open>register 0 1\<close> on a new aligner.\<close>

definition example_aligner_01 :: EdgeAligner where
  "example_aligner_01 =
     \<lparr>reader = \<lparr>rmetadata = example_md, reads = [(0, 0), (1, 0)]\<rparr>, max_shift = 5 / 100,
      cache = [(0, 1) \<mapsto> ((1, 2), 1 / 4)]\<rparr>"

text \<open>A canvas of 16-bit pixels, an image, and a conversion to 16 bits.\<close>

definition example_convert :: "real \<Rightarrow> 16 word" where
  "example_convert x = word_of_int (round (x * 65535))"


definition example_canvas :: "16 word array2" where
  "example_canvas = [[65000, 65000, 65000], [65000, 65000, 65000], [65000, 65000, 65000]]"





text \<open>A dark image of the size of the example canvas, and the view of the whole canvas.\<close>

definition dark_img :: image where
  "dark_img = [[0, 0, 0], [0, 0, 0], [0, 0, 0]]"

definition full_view :: view where
  "full_view = \<lparr>row_start = 0, row_stop = 3, col_start = 0, col_stop = 3\<rparr>"

section \<open>Properties of the metadata and of the overlap\<close>

lemma example_init: "Metadata_init example_ome = Inr example_md"
  by (simp add: Metadata_init_def example_ome_def example_md_def tile_size_def upt_rec)

lemma example_positions:
  "positions example_md = Inr [(0, 0), (0, 90), (0, 180), (90, 0), (90, 90), (90, 180)]"
  by (simp add: positions_def num_images_def example_md_def example_ome_def tile_position_def
      pixel_size_def upt_rec)



text \<open>
  C5, as stated, fails: the offsets are the tile positions minus the top-left corner of
  the overlap, which is their maximum, so they are never positive. For tiles 0 and 1 of
  the example the first offset is (0, -90).
\<close>

theorem intersection_offsets_counterexample:
  "intersection example_md 0 1 = Inr ((0, - 90), (0, 0), (100, 10)) \<and>
   \<not> (0 :: real) \<le> snd ((0, - 90) :: vec2)"
  unfolding intersection_def example_positions
  by (simp add: np_index_def example_md_def vadd_def vsub_def vmax_def vmin_def of_ivec_def)

text \<open>
  C5, amended. For every pair of tiles that intersect, the two offsets returned by
  \<open>intersection\<close> are element-wise less than or equal to zero, and the returned shape
  is strictly positive on both axes.
\<close>

theorem intersection_offsets:
  assumes "intersection md t1 t2 = Inr (offset1, offset2, shape)"
  shows "fst offset1 \<le> 0 \<and> snd offset1 \<le> 0 \<and> fst offset2 \<le> 0 \<and> snd offset2 \<le> 0 \<and>
         0 < fst shape \<and> 0 < snd shape"
  using assms
  by (auto simp add: intersection_def Let_def vsub_def vmax_def
      split: sum.splits option.splits if_splits)

theorem intersection_offsets_witness:
  "intersection example_md 3 4 = Inr ((0, - 90), (0, 0), (100, 10)) \<and>
   fst ((0, - 90) :: vec2) \<le> 0 \<and> snd ((0, - 90) :: vec2) \<le> 0 \<and>
   fst ((0, 0) :: vec2) \<le> 0 \<and> snd ((0, 0) :: vec2) \<le> 0 \<and>
   0 < fst ((100, 10) :: ivec2) \<and> 0 < snd ((100, 10) :: ivec2)"
proof -
  have a: "intersection example_md 3 4 = Inr ((0, - 90), (0, 0), (100, 10))"
    unfolding intersection_def example_positions
    by (simp add: np_index_def example_md_def vadd_def vsub_def vmax_def vmin_def of_ivec_def)
  show ?thesis using a intersection_offsets [OF a] by simp
qed

text \<open>
  C7. \<open>grid_dimensions\<close> raises the error "Series positions do not form a grid" whenever
  the product of the numbers of distinct positions on the two axes differs from the
  number of tiles, and otherwise returns these two numbers. For the two rows of three
  tiles of the example it returns (2, 3).
\<close>

theorem grid_dimensions_spec:
  assumes "positions md = Inr pos"
  shows "grid_dimensions md =
     (if card (fst ` set pos) * card (snd ` set pos) \<noteq> num_images md
      then Inl (ValueError ''Series positions do not form a grid'')
      else Inr (card (fst ` set pos), card (snd ` set pos)))"
  using assms by (simp add: grid_dimensions_def Let_def length_remdups_card_conv)

theorem grid_dimensions_spec_witness:
  "positions example_md = Inr [(0, 0), (0, 90), (0, 180), (90, 0), (90, 90), (90, 180)] \<and>
   grid_dimensions example_md = Inr (2, 3)"
proof -
  have n: "num_images example_md = 6"
    by (simp add: num_images_def example_md_def example_ome_def)
  have "grid_dimensions example_md = Inr (2, 3)"
    using grid_dimensions_spec [OF example_positions] by (simp add: n card_insert_if)
  then show ?thesis using example_positions by simp
qed

section \<open>Properties of the pairwise registration\<close>

lemma vneg_vneg: "vneg (vneg s) = s"
  by (simp add: vneg_def)

lemma overlap_Inr:
  assumes "overlap ext al t1 t2 = (Inr imgs, al1)"
  shows "cache al1 = cache al \<and> max_shift al1 = max_shift al \<and>
         rmetadata (reader al1) = rmetadata (reader al)"
  using assms
  by (auto simp add: overlap_def crop_def Reader_read_def Let_def split: sum.splits prod.splits)

lemma overlap_Inl:
  assumes "overlap ext al t1 t2 = (Inl e, al1)"
  shows "al1 = al"
  using assms
  by (auto simp add: overlap_def Let_def split: sum.splits prod.splits)

lemma exceeds_overlap:
  assumes "overlap ext al t1 t2 = (Inr imgs, al1)"
  shows "exceeds al1 shift = exceeds al shift"
  using overlap_Inr [OF assms] by (simp add: exceeds_def)

lemma register_hit:
  assumes "cache al (min t1 t2, max t1 t2) = Some (shift, err)"
  shows "register ext al t1 t2 = (Inr (if t1 > t2 then vneg shift else shift, err), al)"
  using assms by (simp add: register_def)

lemma register_miss:
  assumes "cache al (min t1 t2, max t1 t2) = None"
    and "overlap ext al t1 t2 = (Inr (img1, img2), al1)"
    and "estimate ext img1 img2 = (shift, err)"
  shows "register ext al t1 t2 =
     (let stored = (if exceeds al shift then ((0, 0), 1) else (shift, err))
      in (Inr (if t1 > t2 then vneg (fst stored) else fst stored, snd stored),
          al1\<lparr>cache := (cache al1)((min t1 t2, max t1 t2) \<mapsto> stored)\<rparr>))"
  using assms exceeds_overlap [OF assms(2)]
  by (simp add: register_def Let_def)

lemma register_miss_fail:
  assumes "cache al (min t1 t2, max t1 t2) = None"
    and "overlap ext al t1 t2 = (Inl e, al1)"
  shows "register ext al t1 t2 = (Inl e, al)"
  using assms overlap_Inl [OF assms(2)]
  by (simp add: register_def Let_def)

lemma register_Inr_cases:
  assumes "register ext al t1 t2 = (Inr r, al1)"
  obtains (hit) shift err where "cache al (min t1 t2, max t1 t2) = Some (shift, err)"
      "r = (if t1 > t2 then vneg shift else shift, err)" "al1 = al"
  | (miss) img1 img2 al0 stored where "cache al (min t1 t2, max t1 t2) = None"
      "overlap ext al t1 t2 = (Inr (img1, img2), al0)"
      "r = (if t1 > t2 then vneg (fst stored) else fst stored, snd stored)"
      "al1 = al0\<lparr>cache := (cache al0)((min t1 t2, max t1 t2) \<mapsto> stored)\<rparr>"
proof (cases "cache al (min t1 t2, max t1 t2)")
  case None
  obtain res al0 where ov: "overlap ext al t1 t2 = (res, al0)" by (cases "overlap ext al t1 t2")
  show ?thesis
  proof (cases res)
    case (Inl e)
    with register_miss_fail [OF None] ov assms show ?thesis by simp
  next
    case (Inr imgs)
    obtain img1 img2 where imgs: "imgs = (img1, img2)" by (cases imgs)
    obtain shift err where est: "estimate ext img1 img2 = (shift, err)"
      by (cases "estimate ext img1 img2")
    from register_miss [OF None ov [unfolded Inr imgs] est] assms
    show ?thesis using miss [OF None ov [unfolded Inr imgs]] by (simp add: Let_def)
  qed
next
  case (Some v)
  obtain shift err where v: "v = (shift, err)" by (cases v)
  from register_hit [OF Some [unfolded v]] assms show ?thesis
    using hit [OF Some [unfolded v]] by simp
qed

text \<open>
  C1. For two different tiles \<open>a\<close> and \<open>b\<close>, whenever \<open>register a b\<close> returns a shift
  and an error, the call \<open>register b a\<close> that follows on the same aligner returns the
  element-wise negation of that shift and the same error. (The second call is a cache
  hit, whatever the order of the first.) For \<open>a = b\<close> the two calls are the same call.
\<close>

theorem register_symmetry:
  assumes "register ext al a b = (Inr (s1, e1), al1)" and "a \<noteq> b"
  shows "\<exists>s2. register ext al1 b a = (Inr (s2, e1), al1) \<and> s1 = vneg s2"
  using assms(1)
proof (cases rule: register_Inr_cases)
  case (hit shift err)
  then have "cache al1 (min b a, max b a) = Some (shift, err)"
    by (simp add: min.commute max.commute)
  from register_hit [OF this] hit assms(2) show ?thesis
    by (auto simp add: vneg_vneg)
next
  case (miss img1 img2 al0 stored)
  then have "cache al1 (min b a, max b a) = Some (fst stored, snd stored)"
    by (simp add: min.commute max.commute)
  from register_hit [OF this] miss assms(2) show ?thesis
    by (auto simp add: vneg_vneg)
qed

text \<open>
  C3. When \<open>register a b\<close> returns a result, calling it again on the aligner it leaves
  returns the same result and leaves the aligner as it is: the read log and the cache
  are unchanged. A call keeps every entry the cache had, changes the aligner only when
  the sorted key was missing, and the only entry it can create is the one of that key.
\<close>

theorem register_idempotent:
  assumes "register ext al a b = (Inr r, al1)"
  shows "register ext al1 a b = (Inr r, al1) \<and>
         (\<forall>k v. cache al k = Some v \<longrightarrow> cache al1 k = Some v) \<and>
         (cache al (min a b, max a b) \<noteq> None \<longrightarrow> al1 = al) \<and>
         (\<forall>k. cache al1 k \<noteq> cache al k \<longrightarrow> k = (min a b, max a b) \<and> cache al k = None)"
  using assms
proof (cases rule: register_Inr_cases)
  case (hit shift err)
  with register_hit [of al a b shift err ext] show ?thesis by simp
next
  case (miss img1 img2 al0 stored)
  have c: "cache al0 = cache al" using overlap_Inr [OF miss(2)] by simp
  have "cache al1 (min a b, max a b) = Some (fst stored, snd stored)"
    using miss by simp
  from register_hit [OF this] miss c show ?thesis
    by (auto simp add: fun_upd_def)
qed

lemma example_intersection_01:
  "intersection example_md 0 1 = Inr ((0, - 90), (0, 0), (100, 10))"
  unfolding intersection_def example_positions
  by (simp add: np_index_def example_md_def vadd_def vsub_def vmax_def vmin_def of_ivec_def)

lemma example_intersection_10:
  "intersection example_md 1 0 = Inr ((0, 0), (0, - 90), (100, 10))"
  unfolding intersection_def example_positions
  by (simp add: np_index_def example_md_def vadd_def vsub_def vmax_def vmin_def of_ivec_def)

lemma example_intersection_03:
  "intersection example_md 0 3 = Inr ((- 90, 0), (0, 0), (10, 100))"
  unfolding intersection_def example_positions
  by (simp add: np_index_def example_md_def vadd_def vsub_def vmax_def vmin_def of_ivec_def)

lemma example_crop:
  "0 < fst shape \<Longrightarrow> 0 < snd shape \<Longrightarrow> 0 \<le> t \<Longrightarrow> t \<le> 10 \<Longrightarrow>
   crop example_ext rd t offset shape = ([[real_of_int t / 10]], rd\<lparr>reads := reads rd @ [(t, 0)]\<rparr>)"
  by (simp add: crop_def Reader_read_def example_ext_def slice_to_def slice_index_def clip_def
      min_def max_def)

lemma example_overlap_01:
  "overlap example_ext example_aligner 0 1 =
     (Inr ([[0]], [[1 / 10]]),
      example_aligner\<lparr>reader := \<lparr>rmetadata = example_md, reads = [(0, 0), (1, 0)]\<rparr>\<rparr>)"
  by (simp add: overlap_def example_aligner_def EdgeAligner_init_def example_reader_def
      example_intersection_01 example_crop)

lemma example_overlap_10:
  "overlap example_ext example_aligner 1 0 =
     (Inr ([[1 / 10]], [[0]]),
      example_aligner\<lparr>reader := \<lparr>rmetadata = example_md, reads = [(1, 0), (0, 0)]\<rparr>\<rparr>)"
  by (simp add: overlap_def example_aligner_def EdgeAligner_init_def example_reader_def
      example_intersection_10 example_crop)

lemma example_overlap_03:
  "overlap example_ext example_aligner 0 3 =
     (Inr ([[0]], [[3 / 10]]),
      example_aligner\<lparr>reader := \<lparr>rmetadata = example_md, reads = [(0, 0), (3, 0)]\<rparr>\<rparr>)"
  by (simp add: overlap_def example_aligner_def EdgeAligner_init_def example_reader_def
      example_intersection_03 example_crop)

lemma example_estimate_01: "estimate example_ext [[0]] [[1 / 10]] = ((1, 2), 1 / 4)"
  by (simp add: estimate_def whiten_def example_ext_def)

lemma example_estimate_10: "estimate example_ext [[1 / 10]] [[0]] = ((- 1, - 2), 1 / 4)"
  by (simp add: estimate_def whiten_def example_ext_def)

lemma example_estimate_03: "estimate example_ext [[0]] [[3 / 10]] = ((21, 0), 1 / 8)"
  by (simp add: estimate_def whiten_def example_ext_def)

lemma example_exceeds:
  "exceeds example_aligner shift = (\<bar>fst shift\<bar> > 5 \<or> \<bar>snd shift\<bar> > 5)"
  by (simp add: exceeds_def example_aligner_def EdgeAligner_init_def example_reader_def
      example_md_def)

lemma example_cache: "cache example_aligner k = None"
  by (simp add: example_aligner_def EdgeAligner_init_def)

lemma example_cache_eq: "cache example_aligner = Map.empty"
  by (simp add: example_aligner_def EdgeAligner_init_def)

lemma example_register_01:
  "register example_ext example_aligner 0 1 = (Inr ((1, 2), 1 / 4), example_aligner_01)"
proof -
  have "register example_ext example_aligner 0 1 =
     (Inr ((1, 2), 1 / 4),
      example_aligner\<lparr>reader := \<lparr>rmetadata = example_md, reads = [(0, 0), (1, 0)]\<rparr>,
        cache := [(0, 1) \<mapsto> ((1, 2), 1 / 4)]\<rparr>)"
    using register_miss [OF example_cache example_overlap_01 example_estimate_01]
    by (simp add: example_exceeds Let_def example_cache_eq)
  then show ?thesis
    by (simp add: example_aligner_01_def example_aligner_def EdgeAligner_init_def)
qed

theorem register_symmetry_witness:
  "register example_ext example_aligner 0 1 = (Inr ((1, 2), 1 / 4), example_aligner_01) \<and>
   (0 :: int) \<noteq> 1 \<and>
   register example_ext example_aligner_01 1 0 = (Inr ((- 1, - 2), 1 / 4), example_aligner_01)"
  using register_symmetry [OF example_register_01] example_register_01
  by (auto simp add: vneg_def)

theorem register_idempotent_witness:
  "register example_ext example_aligner 0 1 = (Inr ((1, 2), 1 / 4), example_aligner_01) \<and>
   register example_ext example_aligner_01 0 1 = (Inr ((1, 2), 1 / 4), example_aligner_01) \<and>
   reads (reader example_aligner_01) = [(0, 0), (1, 0)]"
  using register_idempotent [OF example_register_01] example_register_01
  by (simp add: example_aligner_01_def)

text \<open>
  C2, as stated, fails when the first tile index is the larger one: on a cache miss for
  tiles (1, 0) of the example the estimate is (-1, -2), within 5 pixels on both axes, and
  the call returns (1, 2), its negation, not the estimate unmodified.
\<close>

theorem register_outlier_counterexample:
  "cache example_aligner (min 1 0, max 1 0) = None \<and>
   fst (overlap example_ext example_aligner 1 0) = Inr ([[1 / 10]], [[0]]) \<and>
   estimate example_ext [[1 / 10]] [[0]] = ((- 1, - 2), 1 / 4) \<and>
   \<not> exceeds example_aligner (- 1, - 2) \<and>
   fst (register example_ext example_aligner 1 0) = Inr ((1, 2), 1 / 4) \<and>
   ((1, 2) :: vec2) \<noteq> (- 1, - 2)"
  using register_miss [OF example_cache example_overlap_10 example_estimate_10]
  by (simp add: example_exceeds example_cache example_overlap_10 example_estimate_10 vneg_def)

text \<open>
  C2, amended. On a cache miss for a pair of overlapping tiles, if the estimate's absolute
  shift exceeds \<open>max_shift\<close> (0.05 for a new aligner) times the tile size on any axis,
  the returned shift is zero on both axes and the returned error is 1; otherwise the
  returned error is the estimate's and the returned shift is the estimate's, negated
  when \<open>t1 > t2\<close>.
\<close>

theorem register_outlier:
  assumes "cache al (min t1 t2, max t1 t2) = None"
    and "overlap ext al t1 t2 = (Inr (img1, img2), al1)"
    and "estimate ext img1 img2 = (shift, err)"
  shows "fst (register ext al t1 t2) =
     Inr (if \<bar>fst shift\<bar> > max_shift al * real_of_int (fst (size_yx (rmetadata (reader al)))) \<or>
             \<bar>snd shift\<bar> > max_shift al * real_of_int (snd (size_yx (rmetadata (reader al))))
          then ((0, 0), 1)
          else (if t1 > t2 then vneg shift else shift, err))"
  using register_miss [OF assms]
  by (simp add: Let_def exceeds_def vneg_def)

lemma example_size:
  "max_shift example_aligner = 5 / 100 \<and> size_yx (rmetadata (reader example_aligner)) = (100, 100)"
  by (simp add: example_aligner_def EdgeAligner_init_def example_reader_def example_md_def)

theorem register_outlier_witness:
  "cache example_aligner (min 0 3, max 0 3) = None \<and>
   overlap example_ext example_aligner 0 3 =
     (Inr ([[0]], [[3 / 10]]),
      example_aligner\<lparr>reader := \<lparr>rmetadata = example_md, reads = [(0, 0), (3, 0)]\<rparr>\<rparr>) \<and>
   estimate example_ext [[0]] [[3 / 10]] = ((21, 0), 1 / 8) \<and>
   max_shift example_aligner = 5 / 100 \<and>
   fst (register example_ext example_aligner 0 3) = Inr ((0, 0), 1) \<and>
   fst (register example_ext example_aligner 1 0) = Inr ((1, 2), 1 / 4)"
proof -
  have a: "fst (register example_ext example_aligner 0 3) = Inr ((0, 0), 1)"
    using register_outlier [OF example_cache example_overlap_03 example_estimate_03]
    by (simp add: example_size)
  have b: "fst (register example_ext example_aligner 1 0) = Inr ((1, 2), 1 / 4)"
    using register_outlier [OF example_cache example_overlap_10 example_estimate_10]
    by (simp add: example_size vneg_def)
  show ?thesis
    using a b example_cache example_overlap_03 example_estimate_03 example_size by simp
qed

section \<open>Properties of the position split\<close>

lemma slice_from_neg: "k < 0 \<Longrightarrow> slice_from (- k) xs = drop (nat (- k)) xs"
  by (simp add: slice_from_def slice_index_def min_def)

lemma trunc_neg: "trunc (- x) = - trunc x"
proof -
  consider "x < 0" | "x = 0" | "0 < x" by linarith
  then show ?thesis
    by cases (simp_all add: trunc_def ceiling_minus floor_minus)
qed

lemma trunc_of_int: "trunc (real_of_int n) = n"
  by (simp add: trunc_def)

lemma paste_clip_eq:
  "paste_clip img (py, px) =
     (map (drop (nat (trunc (- px)))) (drop (nat (trunc (- py))) img),
      (py - real_of_int (trunc py), px - real_of_int (trunc px)),
      max 0 (trunc py), max 0 (trunc px))"
  by (auto simp add: paste_clip_def modf_def trunc_of_int Let_def slice_from_neg trunc_neg
      max_def)





section \<open>Properties of the layer registration\<close>










section \<open>Properties of the maximum-intensity compositing\<close>

lemma map_region_length: "length (map_region P f a) = length a"
  by (simp add: map_region_def)



lemma rect_nth: "rect a \<Longrightarrow> r < length a \<Longrightarrow> length (a ! r) = ncols a"
  by (simp add: rect_def list_all_length)


lemma ncols_nth: "0 < length a \<Longrightarrow> ncols a = length (a ! 0)"
  by (cases a) (simp_all add: ncols_def)

lemma ncols_Nil: "length a = 0 \<Longrightarrow> ncols a = 0"
  by (simp add: ncols_def)




lemma ncols_clipped:
  "rect a \<Longrightarrow> e < length a \<Longrightarrow> ncols (map (drop d) (drop e a)) = ncols a - d"
  by (simp add: ncols_nth rect_nth)






lemma map2_max_shape:
  assumes "map length a = map length b"
  shows "map length (map2 (map2 max) a b) = map length a"
proof -
  have l: "length a = length b" using assms by (metis length_map)
  have "\<And>i. i < length a \<Longrightarrow> length (a ! i) = length (b ! i)"
    using assms l by (metis nth_map)
  then show ?thesis using l by (intro nth_equalityI) simp_all
qed





lemma example_convert_values:
  "example_convert (clip 0 1 1) = 65535" "example_convert (clip 0 1 (1 / 5)) = 13107"
  "example_convert (clip 0 1 2) = 65535" "example_convert (clip 0 1 0) = 0"
  by (simp_all add: example_convert_def clip_def round_def)


section \<open>The debug outline\<close>

lemma dark_clip: "paste_clip dark_img (0, 0) = (dark_img, (0, 0), 0, 0)"
  by (simp add: paste_clip_eq trunc_def)

lemma dark_view:
  "view_of example_canvas 0 (0 + int (nrows dark_img)) 0 (0 + int (ncols dark_img)) = full_view"
  by (simp add: view_of_def dark_img_def example_canvas_def nrows_def ncols_def slice_index_def
      full_view_def)

lemma dark_get: "view_get example_canvas full_view = example_canvas"
  by (simp add: view_get_def view_rows_def view_cols_def full_view_def example_canvas_def)

lemma dark_crop: "crop_like dark_img example_canvas = dark_img"
  by (simp add: crop_like_def nrows_def ncols_def dark_img_def example_canvas_def)

lemma dark_convert:
  "map (map example_convert) (map (map (clip 0 1)) (ndimage_shift example_ext dark_img (0, 0)))
     = [[0, 0, 0], [0, 0, 0], [0, 0, 0]]"
  by (simp add: example_ext_def dark_img_def example_convert_values)

lemma dark_max:
  "map2 (map2 max) example_canvas [[0, 0, 0], [0, 0, 0], [0, 0, 0]] = example_canvas"
  by (simp add: example_canvas_def)

lemma dark_set: "view_set example_canvas full_view example_canvas = example_canvas"
  by (simp add: view_set_def map_region_def in_view_def example_canvas_def full_view_def)

lemma dark_paste_at:
  "paste_at example_ext example_convert example_canvas dark_img (0, 0) 0 0 debug =
     (if debug then paste_outline example_canvas full_view else (Inr (), example_canvas))"
  unfolding paste_at_def Let_def dark_view dark_get dark_crop dark_convert dark_max dark_set
  by (simp add: example_canvas_def)

lemma dark_outline:
  "paste_outline example_canvas full_view =
     (Inr (), [[5464, 5464, 5464], [5464, 65000, 5464], [5464, 5464, 5464]])"
  by (simp add: paste_outline_def Let_def view_rows_def view_cols_def full_view_def
      slice_index_def view_add_def map_region_def in_view_def example_canvas_def)

text \<open>
  C8 does not hold of the code. On a canvas of 16-bit pixels that are all 65000, pasting a
  dark image of the same size at (0, 0) with the debug outline leaves the border pixels
  at 5464: the addition of 6000 wraps around, and the \<open>np.clip\<close> that follows has no
  output array, so that nothing is clamped to the maximum 65535. The canvas with the
  outline differs from the canvas without it, and it is the canvas that later steps read.
\<close>

theorem paste_debug_wraps:
  "paste example_ext example_convert example_canvas dark_img (0, 0) True =
     (Inr (), [[5464, 5464, 5464], [5464, 65000, 5464], [5464, 5464, 5464]]) \<and>
   paste example_ext example_convert example_canvas dark_img (0, 0) False =
     (Inr (), [[65000, 65000, 65000], [65000, 65000, 65000], [65000, 65000, 65000]])"
  unfolding paste_def dark_clip prod.case Let_def dark_paste_at if_True if_False dark_outline
  by (simp add: example_canvas_def)

end
